theory Spec2Isabelle
  imports Main
begin

section \<open>django-typomatic: registry, field resolver, interface renderer, generator\<close>

text \<open>
  The module \<^verbatim>\<open>django_typomatic/__init__.py\<close> keeps a process-wide dictionary
  \<^verbatim>\<open>__serializers\<close> from context names to lists of serializer classes, fills it
  through the class decorator \<^verbatim>\<open>ts_interface\<close>, and turns one context into
  TypeScript interface declarations with \<^verbatim>\<open>generate_ts\<close>.

  Python classes are objects compared by identity, and two classes may carry the same
  \<^verbatim>\<open>__name__\<close>. A class is therefore a reference (a number), and what the code reads
  from a class object is looked up in a class table.
\<close>

subsection \<open>Data model\<close>

type_synonym cls = nat

text \<open>
  A field instance: \<^verbatim>\<open>type(field)\<close> is \<open>ftype\<close>; \<^verbatim>\<open>hasattr(field, 'child')\<close>
  holds exactly when \<open>fchild\<close> is \<open>Some\<close>, and then \<^verbatim>\<open>field.child\<close> is that object.
\<close>

datatype field = Field (ftype: cls) (fchild: "field option")

text \<open>
  What the code reads from a class object: \<^verbatim>\<open>__name__\<close>, the two \<^verbatim>\<open>issubclass\<close>
  tests, \<^verbatim>\<open>_declared_fields.items()\<close> and, for a model serializer,
  \<^verbatim>\<open>cls().get_fields().items()\<close>. The last two are ordered dictionaries of the
  framework; they are taken as the ordered lists of their items, and what instantiating
  a serializer does besides is left to the framework.
\<close>

record cls_info =
  cname :: string
  is_serializer :: bool
  is_model_serializer :: bool
  declared_fields :: "(string \<times> field) list"
  get_fields :: "(string \<times> field) list"

type_synonym class_table = "cls \<Rightarrow> cls_info"

text \<open>
  The table \<^verbatim>\<open>mappings\<close> is imported from the sibling module \<^verbatim>\<open>mappings.py\<close>; the code
  only calls \<^verbatim>\<open>mappings.get(field_type, 'any')\<close> on it. It is a parameter of the model:
  a dictionary from field classes to TypeScript type names.
\<close>

type_synonym mappings = "cls \<rightharpoonup> string"

datatype error = KeyError string | OSError string

text \<open>
  The state the module works on: the dictionary \<^verbatim>\<open>__serializers\<close>, the contents of
  the files by path, and which paths \<^verbatim>\<open>open(path, 'w')\<close> can open.
\<close>

record pystate =
  serializers :: "string \<rightharpoonup> cls list"
  files :: "string \<rightharpoonup> string"
  openable :: "string \<Rightarrow> bool"

subsection \<open>Registration: \<^verbatim>\<open>ts_interface\<close>\<close>

text \<open>
  \<^verbatim>\<open>ts_interface(context)(cls)\<close>: a subclass of \<^verbatim>\<open>serializers.Serializer\<close> is appended to
  the list of the context, which is created empty first when the key is absent; the class
  is returned in every case.
\<close>

definition ts_interface :: "class_table \<Rightarrow> string \<Rightarrow> pystate \<Rightarrow> cls \<Rightarrow> cls \<times> pystate" where
  "ts_interface H context s c =
     (if is_serializer (H c) then
        (let d0 = serializers s;
             d1 = (if d0 context = None then d0(context \<mapsto> []) else d0);
             d2 = (case d1 context of
                     None \<Rightarrow> d1
                   | Some l \<Rightarrow> d1(context \<mapsto> l @ [c]))
         in (c, s\<lparr>serializers := d2\<rparr>))
      else (c, s))"

subsection \<open>Field resolver: \<^verbatim>\<open>__process_field\<close>\<close>

text \<open>
  \<^verbatim>\<open>is_many = hasattr(field, 'child')\<close> and
  \<^verbatim>\<open>field_type = is_many and type(field.child) or type(field)\<close>: a class object is
  truthy, so this is the type of the child when there is one and the type of the field
  otherwise.
  \<^verbatim>\<open>__serializers[context]\<close> raises \<^verbatim>\<open>KeyError\<close> on an absent key. Membership in the list
  compares class objects, that is, references.
\<close>

definition is_many :: "field \<Rightarrow> bool" where
  "is_many fld = (fchild fld \<noteq> None)"

definition field_type :: "field \<Rightarrow> cls" where
  "field_type fld = (case fchild fld of Some ch \<Rightarrow> ftype ch | None \<Rightarrow> ftype fld)"

definition process_field ::
  "class_table \<Rightarrow> mappings \<Rightarrow> pystate \<Rightarrow> string \<Rightarrow> field \<Rightarrow> string \<Rightarrow> error + (string \<times> string)" where
  "process_field H M s field_name fld context =
     (case serializers s context of
        None \<Rightarrow> Inl (KeyError context)
      | Some regd \<Rightarrow>
          (let ts_type = (if field_type fld \<in> set regd then cname (H (field_type fld))
                          else (case M (field_type fld) of Some t \<Rightarrow> t | None \<Rightarrow> ''any''));
               ts_type2 = (if is_many fld then ts_type @ ''[]'' else ts_type)
           in Inr (field_name, ts_type2)))"

subsection \<open>Interface renderer: \<^verbatim>\<open>__get_ts_interface\<close>\<close>

text \<open>\<^verbatim>\<open>sep.join(xs)\<close> of Python.\<close>

fun join :: "string \<Rightarrow> string list \<Rightarrow> string" where
  "join sep [] = []"
| "join sep [x] = x"
| "join sep (x # y # ys) = x @ sep @ join sep (y # ys)"

text \<open>
  The \<^verbatim>\<open>for key, value in fields\<close> loop, appending one formatted line to
  \<^verbatim>\<open>ts_fields\<close> per item; an exception of the resolver leaves the loop.
\<close>

fun ts_fields_loop ::
  "class_table \<Rightarrow> mappings \<Rightarrow> pystate \<Rightarrow> string \<Rightarrow> (string \<times> field) list \<Rightarrow> string list
     \<Rightarrow> error + string list" where
  "ts_fields_loop H M s context [] ts_fields = Inr ts_fields"
| "ts_fields_loop H M s context ((key, val) # rest) ts_fields =
     (case process_field H M s key val context of
        Inl e \<Rightarrow> Inl e
      | Inr ts_field \<Rightarrow>
          ts_fields_loop H M s context rest
            (ts_fields @ [''    '' @ fst ts_field @ '': '' @ snd ts_field @ '';'']))"

definition get_ts_interface ::
  "class_table \<Rightarrow> mappings \<Rightarrow> pystate \<Rightarrow> cls \<Rightarrow> string \<Rightarrow> error + string" where
  "get_ts_interface H M s serializer context =
     (let name = cname (H serializer);
          fields = (if is_model_serializer (H serializer) then get_fields (H serializer)
                    else declared_fields (H serializer))
      in case ts_fields_loop H M s context fields [] of
           Inl e \<Rightarrow> Inl e
         | Inr ts_fields \<Rightarrow>
             Inr (''export interface '' @ name @ '' {'' @ [CHR 0x0A]
                  @ join [CHR 0x0A] ts_fields @ [CHR 0x0A] @ ''}'' @ [CHR 0x0A, CHR 0x0A]))"

subsection \<open>Generator: \<^verbatim>\<open>generate_ts\<close>\<close>

text \<open>The list comprehension over the serializers of the context.\<close>

fun interfaces_of ::
  "class_table \<Rightarrow> mappings \<Rightarrow> pystate \<Rightarrow> string \<Rightarrow> cls list \<Rightarrow> error + string list" where
  "interfaces_of H M s context [] = Inr []"
| "interfaces_of H M s context (serializer # rest) =
     (case get_ts_interface H M s serializer context of
        Inl e \<Rightarrow> Inl e
      | Inr i \<Rightarrow>
          (case interfaces_of H M s context rest of
             Inl e \<Rightarrow> Inl e
           | Inr is \<Rightarrow> Inr (i # is)))"

text \<open>
  \<^verbatim>\<open>with open(output_path, 'w') as output_file\<close> comes first: it fails with \<^verbatim>\<open>OSError\<close>
  or leaves an empty file at the path. Inside the block, \<^verbatim>\<open>__serializers[context]\<close>
  raises \<^verbatim>\<open>KeyError\<close> on an absent key; otherwise the joined interfaces are written
  and the file is closed. The function returns \<^verbatim>\<open>None\<close>.
\<close>

definition generate_ts ::
  "class_table \<Rightarrow> mappings \<Rightarrow> pystate \<Rightarrow> string \<Rightarrow> string \<Rightarrow> (error + unit) \<times> pystate" where
  "generate_ts H M s output_path context =
     (if \<not> openable s output_path then (Inl (OSError output_path), s)
      else
        (let s1 = s\<lparr>files := (files s)(output_path \<mapsto> [])\<rparr>
         in case serializers s1 context of
              None \<Rightarrow> (Inl (KeyError context), s1)
            | Some regd \<Rightarrow>
                (case interfaces_of H M s1 context regd of
                   Inl e \<Rightarrow> (Inl e, s1)
                 | Inr interfaces \<Rightarrow>
                     (Inr (), s1\<lparr>files := (files s1)(output_path \<mapsto> join [] interfaces)\<rparr>))))"

subsection \<open>A small program using the module\<close>

text \<open>
  Classes of the framework (\<^verbatim>\<open>IntegerField\<close>, \<^verbatim>\<open>CharField\<close>, \<^verbatim>\<open>ListField\<close>,
  \<^verbatim>\<open>ListSerializer\<close>, \<^verbatim>\<open>JSONField\<close>) and of a user: \<^verbatim>\<open>Foo\<close> with an integer field
  \<^verbatim>\<open>id\<close>; \<^verbatim>\<open>Bar\<close> with \<^verbatim>\<open>foo = Foo()\<close> and \<^verbatim>\<open>tags = ListField(child=CharField())\<close>;
  \<^verbatim>\<open>Baz\<close> with \<^verbatim>\<open>foo = Foo()\<close>, \<^verbatim>\<open>foos = Foo(many=True)\<close>,
  \<^verbatim>\<open>quxes = Qux(many=True)\<close> and a JSON field; the model
  serializer \<^verbatim>\<open>Qux\<close>, which declares \<^verbatim>\<open>extra\<close> and whose instance also has the model
  field \<^verbatim>\<open>id\<close>; and a second class that is also named \<^verbatim>\<open>Foo\<close>.
\<close>

definition IntegerField :: cls where "IntegerField = 0"
definition CharField :: cls where "CharField = 1"
definition ListField :: cls where "ListField = 2"
definition ListSerializer :: cls where "ListSerializer = 3"
definition JSONField :: cls where "JSONField = 4"
definition Foo :: cls where "Foo = 5"
definition Bar :: cls where "Bar = 6"
definition Baz :: cls where "Baz = 7"
definition Qux :: cls where "Qux = 8"
definition FooTwin :: cls where "FooTwin = 9"

definition plain_serializer :: "string \<Rightarrow> (string \<times> field) list \<Rightarrow> cls_info" where
  "plain_serializer n fs =
     \<lparr>cname = n, is_serializer = True, is_model_serializer = False,
      declared_fields = fs, get_fields = fs\<rparr>"

definition other_class :: "string \<Rightarrow> cls_info" where
  "other_class n =
     \<lparr>cname = n, is_serializer = False, is_model_serializer = False,
      declared_fields = [], get_fields = []\<rparr>"

definition example_classes :: class_table where
  "example_classes c =
     (if c = Foo then plain_serializer ''Foo'' [(''id'', Field IntegerField None)]
      else if c = Bar then
        plain_serializer ''Bar''
          [(''foo'', Field Foo None),
           (''tags'', Field ListField (Some (Field CharField None)))]
      else if c = Baz then
        plain_serializer ''Baz''
          [(''foo'', Field Foo None),
           (''foos'', Field ListSerializer (Some (Field Foo None))),
           (''quxes'', Field ListSerializer (Some (Field Qux None))),
           (''data'', Field JSONField None)]
      else if c = Qux then
        \<lparr>cname = ''Qux'', is_serializer = True, is_model_serializer = True,
         declared_fields = [(''extra'', Field CharField None)],
         get_fields = [(''id'', Field IntegerField None), (''extra'', Field CharField None)]\<rparr>
      else if c = FooTwin then plain_serializer ''Foo'' [(''id'', Field IntegerField None)]
      else if c = IntegerField then other_class ''IntegerField''
      else if c = CharField then other_class ''CharField''
      else if c = ListField then other_class ''ListField''
      else if c = ListSerializer then other_class ''ListSerializer''
      else if c = JSONField then other_class ''JSONField''
      else other_class ''object'')"

definition example_mappings :: mappings where
  "example_mappings = [IntegerField \<mapsto> ''number'', CharField \<mapsto> ''string'']"

definition empty_state :: pystate where
  "empty_state = \<lparr>serializers = Map.empty, files = Map.empty, openable = (\<lambda>p. True)\<rparr>"

text \<open>
  The state after \<^verbatim>\<open>Foo\<close>, \<^verbatim>\<open>Bar\<close> and \<^verbatim>\<open>Baz\<close> were decorated for the context
  \<^verbatim>\<open>default\<close> and \<^verbatim>\<open>Qux\<close> for \<^verbatim>\<open>other\<close>, with a file already at
  \<^verbatim>\<open>out.ts\<close>.
\<close>

definition example_state :: pystate where
  "example_state =
     \<lparr>serializers = [''default'' \<mapsto> [Foo, Bar, Baz], ''other'' \<mapsto> [Qux]],
      files = [''out.ts'' \<mapsto> ''old text''],
      openable = (\<lambda>p. True)\<rparr>"

definition example_text :: string where
  "example_text = ''export interface Foo {\<newline>    id: number;\<newline>}\<newline>\<newline>export interface Bar {\<newline>    foo: Foo;\<newline>    tags: string[];\<newline>}\<newline>\<newline>''"

lemmas example_defs =
  example_classes_def plain_serializer_def other_class_def example_mappings_def
  example_state_def empty_state_def
  IntegerField_def CharField_def ListField_def ListSerializer_def JSONField_def
  Foo_def Bar_def Baz_def Qux_def FooTwin_def

section \<open>Properties\<close>

subsection \<open>Auxiliary facts\<close>

text \<open>The resolver in a context that has a list in the registry.\<close>

lemma process_field_registered:
  assumes "serializers s context = Some regd"
  shows "process_field H M s field_name fld context =
           Inr (field_name,
                (if field_type fld \<in> set regd then cname (H (field_type fld))
                 else (case M (field_type fld) of Some t \<Rightarrow> t | None \<Rightarrow> ''any''))
                @ (if is_many fld then ''[]'' else []))"
  using assms by (simp add: process_field_def)

text \<open>The loop of the renderer adds one line per item, after the lines it was given.\<close>

lemma ts_fields_loop_registered:
  assumes "serializers s context = Some regd"
  shows "ts_fields_loop H M s context items acc =
           Inr (acc @ map (\<lambda>kv. ''    '' @ fst kv @ '': ''
                                 @ snd (projr (process_field H M s (fst kv) (snd kv) context))
                                 @ '';'') items)"
proof (induction items arbitrary: acc)
  case Nil
  show ?case by simp
next
  case (Cons kv rest)
  obtain k v where kv: "kv = (k, v)" by (cases kv)
  obtain ty where ty: "process_field H M s k v context = Inr (k, ty)"
    using process_field_registered [OF assms] by blast
  show ?case using Cons.IH [of "acc @ [''    '' @ k @ '': '' @ ty @ '';'']"]
    by (simp add: kv ty)
qed

lemma get_ts_interface_registered:
  assumes "serializers s context = Some regd"
  shows "get_ts_interface H M s serializer context =
           Inr (''export interface '' @ cname (H serializer) @ '' {'' @ [CHR 0x0A]
                @ join [CHR 0x0A]
                    (map (\<lambda>kv. ''    '' @ fst kv @ '': ''
                                @ snd (projr (process_field H M s (fst kv) (snd kv) context))
                                @ '';'')
                       (if is_model_serializer (H serializer) then get_fields (H serializer)
                        else declared_fields (H serializer)))
                @ [CHR 0x0A] @ ''}'' @ [CHR 0x0A, CHR 0x0A])"
  by (simp add: get_ts_interface_def ts_fields_loop_registered [OF assms])

lemma interfaces_of_registered:
  assumes "serializers s context = Some regd"
  shows "interfaces_of H M s context sers =
           Inr (map (\<lambda>ser. projr (get_ts_interface H M s ser context)) sers)"
proof (induction sers)
  case Nil
  show ?case by simp
next
  case (Cons ser rest)
  obtain blk where "get_ts_interface H M s ser context = Inr blk"
    using get_ts_interface_registered [OF assms] by blast
  then show ?case by (simp add: Cons.IH)
qed

text \<open>Resolver, renderer and comprehension read nothing of the state but the registry.\<close>

lemma process_field_cong:
  "serializers s' = serializers s \<Longrightarrow>
     process_field H M s' field_name fld context = process_field H M s field_name fld context"
  by (simp add: process_field_def)

lemma ts_fields_loop_cong:
  "serializers s' = serializers s \<Longrightarrow>
     ts_fields_loop H M s' context items acc = ts_fields_loop H M s context items acc"
proof (induction items arbitrary: acc)
  case Nil
  show ?case by simp
next
  case (Cons kv rest)
  obtain k v where kv: "kv = (k, v)" by (cases kv)
  have pf: "process_field H M s' k v context = process_field H M s k v context"
    using Cons.prems by (rule process_field_cong)
  show ?case
  proof (cases "process_field H M s k v context")
    case (Inl e)
    then show ?thesis by (simp add: kv pf)
  next
    case (Inr ts_field)
    then show ?thesis using Cons.IH [OF Cons.prems] by (simp add: kv pf)
  qed
qed

lemma get_ts_interface_cong:
  "serializers s' = serializers s \<Longrightarrow>
     get_ts_interface H M s' ser context = get_ts_interface H M s ser context"
  using ts_fields_loop_cong [of "s'" s H M "context" _ "[]"]
  by (simp add: get_ts_interface_def)

lemma interfaces_of_cong:
  "serializers s' = serializers s \<Longrightarrow>
     interfaces_of H M s' context sers = interfaces_of H M s context sers"
proof (induction sers)
  case Nil
  show ?case by simp
next
  case (Cons ser rest)
  have "get_ts_interface H M s' ser context = get_ts_interface H M s ser context"
    using Cons.prems by (rule get_ts_interface_cong)
  then show ?case using Cons.IH [OF Cons.prems] by (simp split: sum.splits)
qed

text \<open>The generator in a registered context, when the output file opens.\<close>

lemma generate_ts_registered:
  assumes "serializers s context = Some regd" and "openable s output_path"
  shows "generate_ts H M s output_path context =
           (Inr (), s\<lparr>files := (files s)(output_path \<mapsto>
                      join [] (map (\<lambda>ser. projr (get_ts_interface H M s ser context)) regd))\<rparr>)"
proof -
  let ?s1 = "s\<lparr>files := (files s)(output_path \<mapsto> [])\<rparr>"
  have reg: "serializers ?s1 context = Some regd" using assms(1) by simp
  have "interfaces_of H M ?s1 context regd
          = Inr (map (\<lambda>ser. projr (get_ts_interface H M ?s1 ser context)) regd)"
    by (rule interfaces_of_registered [OF reg])
  moreover have "\<And>ser. get_ts_interface H M ?s1 ser context = get_ts_interface H M s ser context"
    by (rule get_ts_interface_cong) simp
  ultimately show ?thesis using assms by (simp add: generate_ts_def)
qed

subsection \<open>The worked example\<close>

text \<open>
  C1. In a state whose registry has no list for \<^verbatim>\<open>default\<close>, decorating \<^verbatim>\<open>Foo\<close> (one integer field
  \<^verbatim>\<open>id\<close>) and then \<^verbatim>\<open>Bar\<close> (a field \<^verbatim>\<open>foo\<close> that is a \<^verbatim>\<open>Foo\<close>, a field \<^verbatim>\<open>tags\<close>
  that is a list of strings) for the context \<^verbatim>\<open>default\<close> and generating that context
  writes exactly the two interface blocks of the example to the output file, for every
  mapping table that sends the integer field class to \<^verbatim>\<open>number\<close> and the string field
  class to \<^verbatim>\<open>string\<close>.
\<close>

theorem generate_ts_example:
  assumes "serializers s ''default'' = None" and "openable s output_path"
    and "M IntegerField = Some ''number''" and "M CharField = Some ''string''"
    and "s1 = snd (ts_interface example_classes ''default'' s Foo)"
    and "s2 = snd (ts_interface example_classes ''default'' s1 Bar)"
  shows "generate_ts example_classes M s2 output_path ''default''
           = (Inr (), s2\<lparr>files := (files s2)(output_path \<mapsto> example_text)\<rparr>)"
  using assms
  by (simp add: generate_ts_def ts_interface_def example_classes_def plain_serializer_def
      other_class_def get_ts_interface_def process_field_def field_type_def is_many_def
      example_text_def IntegerField_def CharField_def ListField_def Foo_def Bar_def Baz_def
      Qux_def FooTwin_def Let_def)

theorem generate_ts_example_witness:
  "serializers empty_state ''default'' = None \<and> openable empty_state ''out.ts''
   \<and> example_mappings IntegerField = Some ''number''
   \<and> example_mappings CharField = Some ''string''
   \<and> fst (generate_ts example_classes example_mappings
          (snd (ts_interface example_classes ''default''
             (snd (ts_interface example_classes ''default'' empty_state Foo)) Bar))
          ''out.ts'' ''default'') = Inr ()
   \<and> files (snd (generate_ts example_classes example_mappings
          (snd (ts_interface example_classes ''default''
             (snd (ts_interface example_classes ''default'' empty_state Foo)) Bar))
          ''out.ts'' ''default'')) ''out.ts'' = Some example_text"
proof -
  have h1: "serializers empty_state ''default'' = None" by (simp add: empty_state_def)
  have h2: "openable empty_state ''out.ts''" by (simp add: empty_state_def)
  have h3: "example_mappings IntegerField = Some ''number''"
    by (simp add: example_mappings_def IntegerField_def CharField_def)
  have h4: "example_mappings CharField = Some ''string''"
    by (simp add: example_mappings_def IntegerField_def CharField_def)
  show ?thesis
    using h1 h2 h3 h4 generate_ts_example [OF h1 h2 h3 h4 refl refl] by simp
qed

subsection \<open>Registration\<close>

text \<open>
  C10. Decorating a class that is not a subclass of \<^verbatim>\<open>serializers.Serializer\<close>, for any
  context name, returns the class and leaves the whole state, so the whole registry, as it
  was: no list is created and none is extended, and no error is raised.
\<close>

theorem ts_interface_non_serializer:
  "\<not> is_serializer (H c) \<Longrightarrow> ts_interface H context s c = (c, s)"
  by (simp add: ts_interface_def)

theorem ts_interface_non_serializer_witness:
  "\<not> is_serializer (example_classes IntegerField)
   \<and> ts_interface example_classes ''fresh'' example_state IntegerField
       = (IntegerField, example_state)"
proof -
  have h: "\<not> is_serializer (example_classes IntegerField)" by (simp add: example_defs)
  show ?thesis
    using h ts_interface_non_serializer [of example_classes IntegerField "''fresh''" example_state]
    by simp
qed

subsection \<open>Field resolver\<close>

text \<open>
  C3. In a context that has a list in the registry (the resolver is only ever called by
  the renderer for the context being generated, whose list the generator is iterating), a
  field whose element kind is neither a key of the mapping table nor a member of the list
  of the context resolves to \<^verbatim>\<open>any\<close>, with \<^verbatim>\<open>[]\<close> appended for an array field; the
  resolver returns a result and raises nothing.
\<close>

theorem process_field_unmapped_any:
  assumes "serializers s context = Some regd"
    and "M (field_type fld) = None"
    and "field_type fld \<notin> set regd"
  shows "process_field H M s field_name fld context
           = Inr (field_name, ''any'' @ (if is_many fld then ''[]'' else []))"
  using assms by (simp add: process_field_registered)

theorem process_field_unmapped_any_witness:
  "serializers example_state ''default'' = Some [Foo, Bar, Baz]
   \<and> example_mappings (field_type (Field JSONField None)) = None
   \<and> field_type (Field JSONField None) \<notin> set [Foo, Bar, Baz]
   \<and> process_field example_classes example_mappings example_state
         ''data'' (Field JSONField None) ''default'' = Inr (''data'', ''any'')"
proof -
  have h1: "serializers example_state ''default'' = Some [Foo, Bar, Baz]"
    by (simp add: example_state_def)
  have h2: "example_mappings (field_type (Field JSONField None)) = None"
    by (simp add: field_type_def example_defs)
  have h3: "field_type (Field JSONField None) \<notin> set [Foo, Bar, Baz]"
    by (simp add: field_type_def example_defs)
  have "\<not> is_many (Field JSONField None)" by (simp add: is_many_def)
  then show ?thesis
    using h1 h2 h3
      process_field_unmapped_any [of example_state "''default''" "[Foo, Bar, Baz]"
        example_mappings "Field JSONField None" example_classes "''data''"]
    by simp
qed

text \<open>
  C6. In a context that has a list in the registry, a field that carries a child element
  resolves to the resolution of a childless field of the child's type, followed by
  \<^verbatim>\<open>[]\<close>.
\<close>

theorem process_field_array_suffix:
  assumes "serializers s context = Some regd" and "fchild fld = Some ch"
  shows "\<exists>x. process_field H M s field_name (Field (ftype ch) None) context
                 = Inr (field_name, x)
             \<and> process_field H M s field_name fld context = Inr (field_name, x @ ''[]'')"
  using assms by (simp add: process_field_registered field_type_def is_many_def)

theorem process_field_array_suffix_witness:
  "serializers example_state ''default'' = Some [Foo, Bar, Baz]
   \<and> fchild (Field ListField (Some (Field CharField None))) = Some (Field CharField None)
   \<and> process_field example_classes example_mappings example_state
         ''tags'' (Field CharField None) ''default'' = Inr (''tags'', ''string'')
   \<and> process_field example_classes example_mappings example_state
         ''tags'' (Field ListField (Some (Field CharField None))) ''default''
         = Inr (''tags'', ''string[]'')"
proof -
  have h1: "serializers example_state ''default'' = Some [Foo, Bar, Baz]"
    by (simp add: example_state_def)
  have h2: "fchild (Field ListField (Some (Field CharField None))) = Some (Field CharField None)"
    by simp
  have e: "process_field example_classes example_mappings example_state
             ''tags'' (Field CharField None) ''default'' = Inr (''tags'', ''string'')"
    by (simp add: process_field_def field_type_def is_many_def example_defs)
  show ?thesis
    using h1 h2 e
      process_field_array_suffix [OF h1 h2, of example_classes example_mappings "''tags''"]
    by auto
qed

subsection \<open>Generator\<close>

text \<open>
  C2, as the code has it. For a context that has no list in the registry, when the output
  path can be opened: the file is opened for writing first, so it is created or cut to
  empty; then the lookup fails with \<^verbatim>\<open>KeyError\<close>; no text is written, no other file
  and nothing of the registry changes.
\<close>

theorem generate_ts_unregistered:
  assumes "serializers s context = None" and "openable s output_path"
  shows "generate_ts H M s output_path context
           = (Inl (KeyError context), s\<lparr>files := (files s)(output_path \<mapsto> [])\<rparr>)"
  using assms by (simp add: generate_ts_def)

theorem generate_ts_unregistered_witness:
  "serializers empty_state ''default'' = None \<and> openable empty_state ''out.ts''
   \<and> generate_ts example_classes example_mappings empty_state ''out.ts'' ''default''
       = (Inl (KeyError ''default''), empty_state\<lparr>files := [''out.ts'' \<mapsto> []]\<rparr>)"
proof -
  have h1: "serializers empty_state ''default'' = None" by (simp add: empty_state_def)
  have h2: "openable empty_state ''out.ts''" by (simp add: empty_state_def)
  have "files empty_state = Map.empty" by (simp add: empty_state_def)
  then show ?thesis
    using h1 h2 generate_ts_unregistered [OF h1 h2, of example_classes example_mappings]
    by simp
qed

text \<open>
  C2 as stated fails: with the contexts \<^verbatim>\<open>default\<close> and \<^verbatim>\<open>other\<close> registered and the
  text \<^verbatim>\<open>old text\<close> in \<^verbatim>\<open>out.ts\<close>, generating the context \<^verbatim>\<open>staging\<close> into
  \<^verbatim>\<open>out.ts\<close> raises \<^verbatim>\<open>KeyError\<close> and leaves \<^verbatim>\<open>out.ts\<close> empty.
\<close>

theorem generate_ts_unregistered_counterexample:
  "serializers example_state ''staging'' = None
   \<and> files example_state ''out.ts'' = Some ''old text''
   \<and> fst (generate_ts example_classes example_mappings example_state ''out.ts'' ''staging'')
       = Inl (KeyError ''staging'')
   \<and> files (snd (generate_ts example_classes example_mappings example_state
                    ''out.ts'' ''staging'')) ''out.ts'' = Some []
   \<and> files (snd (generate_ts example_classes example_mappings example_state
                    ''out.ts'' ''staging'')) ''out.ts'' \<noteq> files example_state ''out.ts''"
  by (simp add: generate_ts_def example_state_def)

text \<open>
  C9. For a context that has a list in the registry, a second call of the generator in
  the state the first call left returns what the first returned and leaves that state as
  it is, so the file holds the same text after both; the registry after the first call is
  the registry before it; and when the output path can be opened both calls succeed and
  the file holds a text.
\<close>

theorem generate_ts_idempotent:
  assumes "serializers s context = Some regd"
    and "r1 = generate_ts H M s output_path context"
    and "r2 = generate_ts H M (snd r1) output_path context"
  shows "serializers (snd r1) = serializers s
         \<and> fst r2 = fst r1 \<and> snd r2 = snd r1
         \<and> (openable s output_path \<longrightarrow>
               fst r1 = Inr () \<and> (\<exists>text. files (snd r1) output_path = Some text
                                         \<and> files (snd r2) output_path = Some text))"
proof (cases "openable s output_path")
  case False
  then show ?thesis using assms by (simp add: generate_ts_def)
next
  case True
  let ?out = "join [] (map (\<lambda>ser. projr (get_ts_interface H M s ser context)) regd)"
  let ?s' = "s\<lparr>files := (files s)(output_path \<mapsto> ?out)\<rparr>"
  have r1: "r1 = (Inr (), ?s')"
    using assms(2) generate_ts_registered [OF assms(1) True] by simp
  have reg': "serializers ?s' context = Some regd" using assms(1) by simp
  have open': "openable ?s' output_path" using True by simp
  have same: "\<And>ser. get_ts_interface H M ?s' ser context = get_ts_interface H M s ser context"
    by (rule get_ts_interface_cong) simp
  have r2: "r2 = (Inr (), ?s')"
    using assms(3) generate_ts_registered [OF reg' open', of H M] by (simp add: r1 same)
  show ?thesis using True by (simp add: r1 r2)
qed

theorem generate_ts_idempotent_witness:
  "serializers example_state ''default'' = Some [Foo, Bar, Baz]
   \<and> openable example_state ''out.ts''
   \<and> serializers (snd (generate_ts example_classes example_mappings example_state
                          ''out.ts'' ''default'')) = serializers example_state
   \<and> generate_ts example_classes example_mappings
        (snd (generate_ts example_classes example_mappings example_state ''out.ts'' ''default''))
        ''out.ts'' ''default''
       = generate_ts example_classes example_mappings example_state ''out.ts'' ''default''
   \<and> fst (generate_ts example_classes example_mappings example_state ''out.ts'' ''default'')
       = Inr ()"
proof -
  have h1: "serializers example_state ''default'' = Some [Foo, Bar, Baz]"
    by (simp add: example_state_def)
  have h2: "openable example_state ''out.ts''" by (simp add: example_state_def)
  show ?thesis
    using h1 h2
      generate_ts_idempotent [OF h1 refl refl, of example_classes example_mappings "''out.ts''"]
    by (simp add: prod_eq_iff)
qed

subsection \<open>Interface renderer\<close>

text \<open>
  C7. For a serializer in the list of a context, with the items \<open>F1..Fn\<close> that the renderer
  enumerates, the rendered block is \<^verbatim>\<open>export interface Name {\<close>, then \<open>n\<close> lines joined
  by newlines, then \<^verbatim>\<open>}\<close> and an empty line; line \<open>i\<close> is four spaces, the name of
  \<open>Fi\<close>, a colon and a space, the type the resolver gives \<open>Fi\<close>, and a semicolon.
\<close>

theorem get_ts_interface_field_lines:
  assumes "serializers s context = Some regd" and "T \<in> set regd"
    and "items = (if is_model_serializer (H T) then get_fields (H T)
                  else declared_fields (H T))"
  shows "\<exists>ls. get_ts_interface H M s T context
                  = Inr (''export interface '' @ cname (H T) @ '' {\<newline>''
                         @ join ''\<newline>'' ls @ ''\<newline>}\<newline>\<newline>'')
              \<and> length ls = length items
              \<and> (\<forall>i < length items.
                    \<exists>ty. process_field H M s (fst (items ! i)) (snd (items ! i)) context
                            = Inr (fst (items ! i), ty)
                        \<and> ls ! i = ''    '' @ fst (items ! i) @ '': '' @ ty @ '';'')"
proof -
  let ?line = "\<lambda>kv. ''    '' @ fst kv @ '': ''
                      @ snd (projr (process_field H M s (fst kv) (snd kv) context)) @ '';''"
  have "get_ts_interface H M s T context
          = Inr (''export interface '' @ cname (H T) @ '' {\<newline>''
                 @ join ''\<newline>'' (map ?line items) @ ''\<newline>}\<newline>\<newline>'')"
    using get_ts_interface_registered [OF assms(1), of H M T] assms(3) by simp
  moreover have "length (map ?line items) = length items" by simp
  moreover have "\<forall>i < length items.
      \<exists>ty. process_field H M s (fst (items ! i)) (snd (items ! i)) context
              = Inr (fst (items ! i), ty)
          \<and> map ?line items ! i = ''    '' @ fst (items ! i) @ '': '' @ ty @ '';''"
    by (simp add: process_field_registered [OF assms(1)])
  ultimately show ?thesis by blast
qed

theorem get_ts_interface_field_lines_witness:
  "serializers example_state ''default'' = Some [Foo, Bar, Baz] \<and> Bar \<in> set [Foo, Bar, Baz]
   \<and> get_ts_interface example_classes example_mappings example_state Bar ''default''
       = Inr ''export interface Bar {\<newline>    foo: Foo;\<newline>    tags: string[];\<newline>}\<newline>\<newline>''
   \<and> (\<exists>ls. get_ts_interface example_classes example_mappings example_state Bar ''default''
                = Inr (''export interface Bar {\<newline>'' @ join ''\<newline>'' ls
                       @ ''\<newline>}\<newline>\<newline>'')
            \<and> length ls = 2)"
proof -
  have h1: "serializers example_state ''default'' = Some [Foo, Bar, Baz]"
    by (simp add: example_state_def)
  have h2: "Bar \<in> set [Foo, Bar, Baz]" by simp
  have e: "get_ts_interface example_classes example_mappings example_state Bar ''default''
       = Inr ''export interface Bar {\<newline>    foo: Foo;\<newline>    tags: string[];\<newline>}\<newline>\<newline>''"
    by (simp add: get_ts_interface_def process_field_def field_type_def is_many_def
        example_defs)
  have n: "cname (example_classes Bar) = ''Bar''
           \<and> length (if is_model_serializer (example_classes Bar)
                      then get_fields (example_classes Bar)
                      else declared_fields (example_classes Bar)) = 2"
    by (simp add: example_defs)
  show ?thesis
    using h1 h2 e n
      get_ts_interface_field_lines [OF h1 h2 refl, of example_classes example_mappings]
    by auto
qed

text \<open>
  C8. The items the renderer works on are the computed fields of an instance
  (\<^verbatim>\<open>get_fields\<close>) for a model serializer and the declared fields
  (\<^verbatim>\<open>_declared_fields\<close>) for any other serializer: the rendered block is the block built
  from exactly those items.
\<close>

theorem get_ts_interface_field_source:
  assumes "serializers s context = Some regd"
  shows "(is_model_serializer (H S) \<longrightarrow>
            get_ts_interface H M s S context
              = Inr (''export interface '' @ cname (H S) @ '' {\<newline>''
                     @ join ''\<newline>''
                         (map (\<lambda>kv. ''    '' @ fst kv @ '': ''
                                 @ snd (projr (process_field H M s (fst kv) (snd kv) context))
                                 @ '';'') (get_fields (H S)))
                     @ ''\<newline>}\<newline>\<newline>''))
         \<and> (\<not> is_model_serializer (H S) \<longrightarrow>
            get_ts_interface H M s S context
              = Inr (''export interface '' @ cname (H S) @ '' {\<newline>''
                     @ join ''\<newline>''
                         (map (\<lambda>kv. ''    '' @ fst kv @ '': ''
                                 @ snd (projr (process_field H M s (fst kv) (snd kv) context))
                                 @ '';'') (declared_fields (H S)))
                     @ ''\<newline>}\<newline>\<newline>''))"
  using get_ts_interface_registered [OF assms, of H M S] by simp

theorem get_ts_interface_field_source_witness:
  "serializers example_state ''other'' = Some [Qux]
   \<and> is_model_serializer (example_classes Qux)
   \<and> get_fields (example_classes Qux)
       = [(''id'', Field IntegerField None), (''extra'', Field CharField None)]
   \<and> declared_fields (example_classes Qux) = [(''extra'', Field CharField None)]
   \<and> get_ts_interface example_classes example_mappings example_state Qux ''other''
       = Inr ''export interface Qux {\<newline>    id: number;\<newline>    extra: string;\<newline>}\<newline>\<newline>''
   \<and> \<not> is_model_serializer (example_classes Foo)
   \<and> declared_fields (example_classes Foo) = [(''id'', Field IntegerField None)]
   \<and> get_ts_interface example_classes example_mappings example_state Foo ''other''
       = Inr ''export interface Foo {\<newline>    id: number;\<newline>}\<newline>\<newline>''"
proof -
  have h1: "serializers example_state ''other'' = Some [Qux]"
    by (simp add: example_state_def)
  have q: "is_model_serializer (example_classes Qux)
     \<and> cname (example_classes Qux) = ''Qux''
     \<and> get_fields (example_classes Qux)
         = [(''id'', Field IntegerField None), (''extra'', Field CharField None)]
     \<and> declared_fields (example_classes Qux) = [(''extra'', Field CharField None)]"
    by (simp add: example_defs)
  have f: "\<not> is_model_serializer (example_classes Foo)
     \<and> cname (example_classes Foo) = ''Foo''
     \<and> declared_fields (example_classes Foo) = [(''id'', Field IntegerField None)]"
    by (simp add: example_defs)
  have p1: "process_field example_classes example_mappings example_state
              ''id'' (Field IntegerField None) ''other'' = Inr (''id'', ''number'')"
    by (simp add: process_field_def field_type_def is_many_def example_defs)
  have p2: "process_field example_classes example_mappings example_state
              ''extra'' (Field CharField None) ''other'' = Inr (''extra'', ''string'')"
    by (simp add: process_field_def field_type_def is_many_def example_defs)
  show ?thesis
    using h1 q f p1 p2
      get_ts_interface_field_source [OF h1, of example_classes Qux example_mappings]
      get_ts_interface_field_source [OF h1, of example_classes Foo example_mappings]
    by simp
qed

subsection \<open>Cross-references and contexts\<close>

text \<open>
  C4, as the code has it. When \<open>A\<close> and \<open>B\<close> are both in the list of the context and an
  item of \<open>A\<close> has the element kind \<open>B\<close>, the resolver gives that item the class name of
  \<open>B\<close>, followed by \<^verbatim>\<open>[]\<close> when the item is an array field, and this is the type on the
  item's line in the block rendered for \<open>A\<close>; the mapping table is not consulted. The
  test is on the class, not on its name: a class outside the list is resolved through
  the mapping table even when it has the same name as \<open>B\<close>.
\<close>

theorem process_field_cross_reference:
  assumes "serializers s context = Some regd" and "A \<in> set regd" and "B \<in> set regd"
    and "items = (if is_model_serializer (H A) then get_fields (H A)
                  else declared_fields (H A))"
    and "i < length items" and "items ! i = (field_name, fld)"
    and "field_type fld = B"
  shows "process_field H M s field_name fld context
           = Inr (field_name, cname (H B) @ (if is_many fld then ''[]'' else []))
         \<and> (\<exists>ls. get_ts_interface H M s A context
                     = Inr (''export interface '' @ cname (H A) @ '' {\<newline>''
                            @ join ''\<newline>'' ls @ ''\<newline>}\<newline>\<newline>'')
                 \<and> length ls = length items
                 \<and> ls ! i = ''    '' @ field_name @ '': '' @ cname (H B)
                             @ (if is_many fld then ''[]'' else []) @ '';'')
         \<and> (\<forall>B'. cname (H B') = cname (H B) \<and> B' \<notin> set regd \<longrightarrow>
                process_field H M s field_name (Field B' None) context
                  = Inr (field_name, case M B' of Some t \<Rightarrow> t | None \<Rightarrow> ''any''))"
proof -
  let ?line = "\<lambda>kv. ''    '' @ fst kv @ '': ''
                      @ snd (projr (process_field H M s (fst kv) (snd kv) context)) @ '';''"
  have pf: "process_field H M s field_name fld context
              = Inr (field_name, cname (H B) @ (if is_many fld then ''[]'' else []))"
    using assms(3,7) by (simp add: process_field_registered [OF assms(1)])
  have blk: "get_ts_interface H M s A context
          = Inr (''export interface '' @ cname (H A) @ '' {\<newline>''
                 @ join ''\<newline>'' (map ?line items) @ ''\<newline>}\<newline>\<newline>'')"
    using get_ts_interface_registered [OF assms(1), of H M A] assms(4) by simp
  have len: "length (map ?line items) = length items" by simp
  have nth: "map ?line items ! i = ''    '' @ field_name @ '': '' @ cname (H B)
                             @ (if is_many fld then ''[]'' else []) @ '';''"
    using assms(5,6) pf by simp
  have twin: "\<forall>B'. cname (H B') = cname (H B) \<and> B' \<notin> set regd \<longrightarrow>
                process_field H M s field_name (Field B' None) context
                  = Inr (field_name, case M B' of Some t \<Rightarrow> t | None \<Rightarrow> ''any'')"
    by (simp add: process_field_registered [OF assms(1)] field_type_def is_many_def)
  show ?thesis using pf blk len nth twin by blast
qed

theorem process_field_cross_reference_witness:
  "serializers example_state ''default'' = Some [Foo, Bar, Baz]
   \<and> Baz \<in> set [Foo, Bar, Baz] \<and> Foo \<in> set [Foo, Bar, Baz]
   \<and> declared_fields (example_classes Baz) ! 1
       = (''foos'', Field ListSerializer (Some (Field Foo None)))
   \<and> field_type (Field ListSerializer (Some (Field Foo None))) = Foo
   \<and> process_field example_classes example_mappings example_state
         ''foos'' (Field ListSerializer (Some (Field Foo None))) ''default''
       = Inr (''foos'', ''Foo[]'')
   \<and> cname (example_classes FooTwin) = cname (example_classes Foo)
   \<and> FooTwin \<notin> set [Foo, Bar, Baz]
   \<and> process_field example_classes example_mappings example_state
         ''foos'' (Field FooTwin None) ''default'' = Inr (''foos'', ''any'')"
proof -
  have h1: "serializers example_state ''default'' = Some [Foo, Bar, Baz]"
    by (simp add: example_state_def)
  have h2: "Baz \<in> set [Foo, Bar, Baz]" by simp
  have h3: "Foo \<in> set [Foo, Bar, Baz]" by simp
  have h4: "(1::nat) < length (if is_model_serializer (example_classes Baz)
                               then get_fields (example_classes Baz)
                               else declared_fields (example_classes Baz))"
    by (simp add: example_defs)
  have h5: "(if is_model_serializer (example_classes Baz)
             then get_fields (example_classes Baz)
             else declared_fields (example_classes Baz)) ! 1
              = (''foos'', Field ListSerializer (Some (Field Foo None)))"
    by (simp add: example_defs)
  have h5': "declared_fields (example_classes Baz) ! 1
              = (''foos'', Field ListSerializer (Some (Field Foo None)))"
    by (simp add: example_defs)
  have h6: "field_type (Field ListSerializer (Some (Field Foo None))) = Foo"
    by (simp add: field_type_def)
  have n: "cname (example_classes Foo) = ''Foo''
           \<and> cname (example_classes FooTwin) = cname (example_classes Foo)
           \<and> FooTwin \<notin> set [Foo, Bar, Baz] \<and> example_mappings FooTwin = None
           \<and> is_many (Field ListSerializer (Some (Field Foo None)))"
    by (simp add: is_many_def example_defs)
  show ?thesis
    using h1 h2 h3 h4 h5 h5' h6 n
      process_field_cross_reference [of example_state "''default''" "[Foo, Bar, Baz]" Baz Foo
        "if is_model_serializer (example_classes Baz) then get_fields (example_classes Baz)
         else declared_fields (example_classes Baz)"
        example_classes 1 "''foos''" "Field ListSerializer (Some (Field Foo None))"
        example_mappings]
    by simp
qed

text \<open>
  C4 as stated fails on an array field: \<^verbatim>\<open>Baz\<close> and \<^verbatim>\<open>Foo\<close> are both registered for
  \<^verbatim>\<open>default\<close>, the item \<^verbatim>\<open>foos\<close> of \<^verbatim>\<open>Baz\<close> has the element kind \<^verbatim>\<open>Foo\<close>, and its type
  is \<^verbatim>\<open>Foo[]\<close>, which is not the class name \<^verbatim>\<open>Foo\<close>.
\<close>

theorem process_field_cross_reference_counterexample:
  "serializers example_state ''default'' = Some [Foo, Bar, Baz]
   \<and> declared_fields (example_classes Baz) ! 1
       = (''foos'', Field ListSerializer (Some (Field Foo None)))
   \<and> field_type (Field ListSerializer (Some (Field Foo None))) = Foo
   \<and> process_field example_classes example_mappings example_state
         ''foos'' (Field ListSerializer (Some (Field Foo None))) ''default''
       = Inr (''foos'', ''Foo[]'')
   \<and> process_field example_classes example_mappings example_state
         ''foos'' (Field ListSerializer (Some (Field Foo None))) ''default''
       \<noteq> Inr (''foos'', cname (example_classes Foo))"
  by (simp add: process_field_def field_type_def is_many_def example_defs)

text \<open>
  C5, as the code has it. When the context being generated has a list in the registry and
  \<open>B\<close> is in the list of another context only, an item with the element kind \<open>B\<close> is
  resolved through the mapping table; \<open>B\<close> is not a key of that table, so the type is
  \<^verbatim>\<open>any\<close>, followed by \<^verbatim>\<open>[]\<close> when the item is an array field.
\<close>

theorem process_field_context_isolation:
  assumes "serializers s context = Some regd" and "B \<notin> set regd"
    and "serializers s other = Some regd'" and "B \<in> set regd'"
    and "M B = None" and "field_type fld = B"
  shows "process_field H M s field_name fld context
           = Inr (field_name, ''any'' @ (if is_many fld then ''[]'' else []))"
  using assms by (simp add: process_field_registered)

theorem process_field_context_isolation_witness:
  "serializers example_state ''default'' = Some [Foo, Bar, Baz] \<and> Qux \<notin> set [Foo, Bar, Baz]
   \<and> serializers example_state ''other'' = Some [Qux] \<and> Qux \<in> set [Qux]
   \<and> example_mappings Qux = None
   \<and> process_field example_classes example_mappings example_state
         ''qux'' (Field Qux None) ''default'' = Inr (''qux'', ''any'')
   \<and> process_field example_classes example_mappings example_state
         ''qux'' (Field Qux None) ''other'' = Inr (''qux'', ''Qux'')"
proof -
  have h1: "serializers example_state ''default'' = Some [Foo, Bar, Baz]"
    by (simp add: example_state_def)
  have h2: "Qux \<notin> set [Foo, Bar, Baz]" by (simp add: example_defs)
  have h3: "serializers example_state ''other'' = Some [Qux]"
    by (simp add: example_state_def)
  have h4: "Qux \<in> set [Qux]" by simp
  have h5: "example_mappings Qux = None" by (simp add: example_defs)
  have h6: "field_type (Field Qux None) = Qux" by (simp add: field_type_def)
  have m: "\<not> is_many (Field Qux None)" by (simp add: is_many_def)
  have o: "process_field example_classes example_mappings example_state
             ''qux'' (Field Qux None) ''other'' = Inr (''qux'', ''Qux'')"
    by (simp add: process_field_def field_type_def is_many_def example_defs)
  show ?thesis
    using h1 h2 h3 h4 h5 h6 m o
      process_field_context_isolation [of example_state "''default''" "[Foo, Bar, Baz]" Qux
        "''other''" "[Qux]" example_mappings "Field Qux None" example_classes "''qux''"]
    by simp
qed

text \<open>
  C5 as stated fails on an array field: \<^verbatim>\<open>Qux\<close> is registered for \<^verbatim>\<open>other\<close> only, the
  item \<^verbatim>\<open>quxes\<close> of \<^verbatim>\<open>Baz\<close> has the element kind \<^verbatim>\<open>Qux\<close>, and under \<^verbatim>\<open>default\<close> its
  type is \<^verbatim>\<open>any[]\<close>, not \<^verbatim>\<open>any\<close>.
\<close>

theorem process_field_context_isolation_counterexample:
  "serializers example_state ''other'' = Some [Qux]
   \<and> serializers example_state ''default'' = Some [Foo, Bar, Baz]
   \<and> Qux \<notin> set [Foo, Bar, Baz]
   \<and> declared_fields (example_classes Baz) ! 2
       = (''quxes'', Field ListSerializer (Some (Field Qux None)))
   \<and> field_type (Field ListSerializer (Some (Field Qux None))) = Qux
   \<and> process_field example_classes example_mappings example_state
         ''quxes'' (Field ListSerializer (Some (Field Qux None))) ''default''
       = Inr (''quxes'', ''any[]'')
   \<and> process_field example_classes example_mappings example_state
         ''quxes'' (Field ListSerializer (Some (Field Qux None))) ''default''
       \<noteq> Inr (''quxes'', ''any'')"
  by (simp add: process_field_def field_type_def is_many_def example_defs)

end
